theory Spec2Isabelle
  imports Complex_Main "HOL-Library.Word"
begin

section \<open>Numbers, errors and numpy helpers\<close>

text \<open>
  The analysis pipeline of \<^verbatim>\<open>backend/app/services/analysis.py\<close> computes on
  IEEE doubles. They are embedded as the type \<^typ>\<open>real\<close>: rounding, overflow and
  NaN inputs are not part of the model. What Python and numpy do where real arithmetic
  itself is undefined is written out: a Python \<^verbatim>\<open>float\<close> division by zero raises
  \<^verbatim>\<open>ZeroDivisionError\<close>, a numpy division by zero yields an infinity or NaN.
\<close>

datatype error = IndexError | KeyError string | ValueError string | ZeroDivisionError

definition eps :: real where
  "eps = 0.000001"

text \<open>Python's \<^verbatim>\<open>a / b\<close> on floats.\<close>

definition py_div :: "real \<Rightarrow> real \<Rightarrow> error + real" where
  "py_div a b = (if b = 0 then Inl ZeroDivisionError else Inr (a / b))"

text \<open>\<^verbatim>\<open>np.radians\<close> and \<^verbatim>\<open>np.degrees\<close>.\<close>

definition radians :: "real \<Rightarrow> real" where
  "radians d = d * pi / 180"

definition degrees :: "real \<Rightarrow> real" where
  "degrees r = r * 180 / pi"

section \<open>Face dimensions and the face-shape classifier\<close>

text \<open>
  The dictionary returned by \<^verbatim>\<open>calculate_dimensions\<close> always has the same five
  keys and is only ever read by key, so it is a record.
\<close>

record FaceDimensions =
  forehead_width :: real
  cheekbone_width :: real
  jaw_width :: real
  face_length :: real
  jaw_angle :: real

text \<open>
  \<^verbatim>\<open>classify_face\<close>, lines 83 to 116. The three ratios are Python float divisions; the
  early returns of the source are the branches of the nested conditional, in the order
  of the source.
\<close>

definition classify_face :: "FaceDimensions \<Rightarrow> error + string" where
  "classify_face dimensions =
    (let forehead = forehead_width dimensions;
         cheekbone = cheekbone_width dimensions;
         jaw = jaw_width dimensions;
         length = face_length dimensions;
         jaw_angle = jaw_angle dimensions;
         width_avg = (forehead + cheekbone + jaw) / 3.0
     in case py_div length (width_avg + eps) of Inl e \<Rightarrow> Inl e | Inr length_ratio \<Rightarrow>
       (case py_div cheekbone (jaw + eps) of Inl e \<Rightarrow> Inl e | Inr cheek_to_jaw \<Rightarrow>
       (case py_div forehead (jaw + eps) of Inl e \<Rightarrow> Inl e | Inr forehead_to_jaw \<Rightarrow>
          Inr (if length_ratio < 1.05 then
                 (if jaw_angle < pi / 3.4 then ''square''
                  else if cheek_to_jaw > 1.05 then ''heart''
                  else ''round'')
               else if length_ratio \<ge> 1.35 then
                 (if cheek_to_jaw > 1.1 \<and> forehead_to_jaw < 0.95 then ''diamond''
                  else ''oblong'')
               else if cheek_to_jaw > 1.15 then ''heart''
               else if jaw_angle < pi / 3.5 then ''square''
               else if cheek_to_jaw > 1.05 \<and> forehead_to_jaw > 1.05 then ''heart''
               else ''oval''))))"

text \<open>
  The classifier as the specification words it: the derived ratios, then the three
  numbered rules of the decision tree, each with its own guard, tried in order.
\<close>

definition spec_width_avg :: "FaceDimensions \<Rightarrow> real" where
  "spec_width_avg d = (forehead_width d + cheekbone_width d + jaw_width d) / 3"

definition spec_length_ratio :: "FaceDimensions \<Rightarrow> real" where
  "spec_length_ratio d = face_length d / (spec_width_avg d + eps)"

definition spec_cheek_to_jaw :: "FaceDimensions \<Rightarrow> real" where
  "spec_cheek_to_jaw d = cheekbone_width d / (jaw_width d + eps)"

definition spec_forehead_to_jaw :: "FaceDimensions \<Rightarrow> real" where
  "spec_forehead_to_jaw d = forehead_width d / (jaw_width d + eps)"

definition spec_rule1 :: "FaceDimensions \<Rightarrow> string" where
  "spec_rule1 d =
    (if jaw_angle d < pi / 3.4 then ''square''
     else if spec_cheek_to_jaw d > 1.05 then ''heart''
     else ''round'')"

definition spec_rule2 :: "FaceDimensions \<Rightarrow> string" where
  "spec_rule2 d =
    (if spec_cheek_to_jaw d > 1.1 \<and> spec_forehead_to_jaw d < 0.95 then ''diamond''
     else ''oblong'')"

definition spec_rule3 :: "FaceDimensions \<Rightarrow> string" where
  "spec_rule3 d =
    (if spec_cheek_to_jaw d > 1.15 then ''heart''
     else if jaw_angle d < pi / 3.5 then ''square''
     else if spec_cheek_to_jaw d > 1.05 \<and> spec_forehead_to_jaw d > 1.05 then ''heart''
     else ''oval'')"

fun first_match :: "(bool \<times> string) list \<Rightarrow> string option" where
  "first_match [] = None"
| "first_match ((guard, shape) # rules) = (if guard then Some shape else first_match rules)"

definition spec_decision_tree :: "FaceDimensions \<Rightarrow> string option" where
  "spec_decision_tree d =
    first_match
      [(spec_length_ratio d < 1.05, spec_rule1 d),
       (spec_length_ratio d \<ge> 1.35, spec_rule2 d),
       (1.05 \<le> spec_length_ratio d \<and> spec_length_ratio d < 1.35, spec_rule3 d)]"

definition scenario_dimensions :: FaceDimensions where
  "scenario_dimensions =
    \<lparr>forehead_width = 130, cheekbone_width = 150, jaw_width = 120,
     face_length = 200, jaw_angle = 1.5\<rparr>"

section \<open>Tone buckets and the jaw-definition score\<close>

text \<open>
  The conditional of \<^verbatim>\<open>analyze_skin_tone\<close>, lines 134 to 143, that turns the
  Individual Typology Angle into a tone.
\<close>

definition tone_of_ita :: "real \<Rightarrow> string" where
  "tone_of_ita ita =
    (if ita \<ge> 55 then ''very_light''
     else if ita \<ge> 41 then ''light''
     else if ita \<ge> 28 then ''medium''
     else if ita \<ge> 10 then ''tan''
     else ''deep'')"

text \<open>The order of the tone buckets: deep, tan, medium, light, very light.\<close>

definition tone_rank :: "string \<Rightarrow> nat" where
  "tone_rank tone =
    (if tone = ''deep'' then 0
     else if tone = ''tan'' then 1
     else if tone = ''medium'' then 2
     else if tone = ''light'' then 3
     else 4)"

text \<open>\<^verbatim>\<open>compute_jaw_definition\<close>, lines 419 to 422.\<close>

definition compute_jaw_definition :: "FaceDimensions \<Rightarrow> real" where
  "compute_jaw_definition dimensions =
    (let jaw_angle = jaw_angle dimensions;
         normalized = max 0.0 (min 1.0 ((jaw_angle - radians 25) / radians 25))
     in 1.0 - \<bar>normalized - 0.5\<bar>)"

section \<open>The dimension measurer\<close>

type_synonym landmark = "real \<times> real"

definition bind_err :: "error + 'a \<Rightarrow> ('a \<Rightarrow> error + 'b) \<Rightarrow> error + 'b" where
  "bind_err m f = (case m of Inl e \<Rightarrow> Inl e | Inr x \<Rightarrow> f x)"

text \<open>\<^verbatim>\<open>points[idx]\<close> on a Python list, for an index that is not negative.\<close>

definition get_point :: "landmark list \<Rightarrow> nat \<Rightarrow> error + landmark" where
  "get_point points idx = (if idx < length points then Inr (points ! idx) else Inl IndexError)"

text \<open>
  Difference, dot product and \<^verbatim>\<open>np.linalg.norm\<close> of two-element arrays, and
  \<^verbatim>\<open>np.clip\<close>.
\<close>

definition vsub :: "landmark \<Rightarrow> landmark \<Rightarrow> landmark" where
  "vsub a b = (fst a - fst b, snd a - snd b)"

definition dot :: "landmark \<Rightarrow> landmark \<Rightarrow> real" where
  "dot a b = fst a * fst b + snd a * snd b"

definition linalg_norm :: "landmark \<Rightarrow> real" where
  "linalg_norm v = sqrt (fst v * fst v + snd v * snd v)"

definition clip :: "real \<Rightarrow> real \<Rightarrow> real \<Rightarrow> real" where
  "clip x lo hi = min (max x lo) hi"

definition distance :: "landmark \<Rightarrow> landmark \<Rightarrow> real" where
  "distance a b = linalg_norm (vsub a b)"

text \<open>
  \<^verbatim>\<open>calculate_dimensions\<close>, lines 57 to 80. The landmark reads come in the order of
  the source; each raises \<^verbatim>\<open>IndexError\<close> on a list that is too short.
\<close>

definition calculate_dimensions :: "landmark list \<Rightarrow> error + FaceDimensions" where
  "calculate_dimensions points =
    bind_err (get_point points 108) (\<lambda>p108.
    bind_err (get_point points 338) (\<lambda>p338.
    bind_err (get_point points 234) (\<lambda>p234.
    bind_err (get_point points 454) (\<lambda>p454.
    bind_err (get_point points 58) (\<lambda>p58.
    bind_err (get_point points 288) (\<lambda>p288.
    bind_err (get_point points 10) (\<lambda>p10.
    bind_err (get_point points 152) (\<lambda>p152.
    bind_err (get_point points 172) (\<lambda>jaw_left.
    bind_err (get_point points 152) (\<lambda>chin.
    bind_err (get_point points 397) (\<lambda>jaw_right.
      (let forehead = distance p108 p338;
           cheekbone = distance p234 p454;
           jaw = distance p58 p288;
           face_length = distance p10 p152;
           v_left = vsub jaw_left chin;
           v_right = vsub jaw_right chin;
           cosine = dot v_left v_right / (linalg_norm v_left * linalg_norm v_right + eps);
           jaw_angle = arccos (clip cosine (- 1.0) 1.0)
       in Inr \<lparr>forehead_width = forehead, cheekbone_width = cheekbone, jaw_width = jaw,
                face_length = face_length, jaw_angle = jaw_angle\<rparr>))))))))))))"

section \<open>The overlay generator\<close>

text \<open>
  The built-in \<^verbatim>\<open>min\<close> and \<^verbatim>\<open>max\<close> on a sequence: they raise on an empty one and
  otherwise keep the first element until a strictly smaller (larger) one comes.
\<close>

fun py_min :: "real list \<Rightarrow> error + real" where
  "py_min [] = Inl (ValueError ''min() arg is an empty sequence'')"
| "py_min (x # xs) = Inr (fold (\<lambda>v m. if v < m then v else m) xs x)"

fun py_max :: "real list \<Rightarrow> error + real" where
  "py_max [] = Inl (ValueError ''max() arg is an empty sequence'')"
| "py_max (x # xs) = Inr (fold (\<lambda>v m. if v > m then v else m) xs x)"

text \<open>\<^verbatim>\<open>range(start, stop, step)\<close> for a positive step.\<close>

definition py_range :: "int \<Rightarrow> int \<Rightarrow> int \<Rightarrow> int list" where
  "py_range start stop step =
    map (\<lambda>k. start + step * int k) [0 ..< nat ((stop - start + step - 1) div step)]"

text \<open>
  The two closures of \<^verbatim>\<open>generate_overlay\<close>, lines 183 to 201, with the bounding box
  they capture as their first four arguments.
\<close>

definition make_zone ::
  "real \<Rightarrow> real \<Rightarrow> real \<Rightarrow> real \<Rightarrow> string \<Rightarrow> real \<Rightarrow> real \<Rightarrow> real \<Rightarrow> real list list" where
  "make_zone min_x min_y max_x max_y zone_type factor_y height inset =
    (let x1 = min_x + (max_x - min_x) * inset;
         x2 = max_x - (max_x - min_x) * inset;
         top = min_y + (max_y - min_y) * factor_y;
         bottom = top + (max_y - min_y) * height
     in [[x1, bottom], [x1 + (max_x - min_x) * 0.05, top],
         [x2 - (max_x - min_x) * 0.05, top], [x2, bottom]])"

definition ellipse ::
  "real \<Rightarrow> real \<Rightarrow> real \<Rightarrow> real \<Rightarrow> real \<Rightarrow> real \<Rightarrow> real \<Rightarrow> real list list" where
  "ellipse min_x min_y max_x max_y center_y_factor width_factor height_factor =
    (let center_x = (min_x + max_x) / 2;
         center_y = min_y + (max_y - min_y) * center_y_factor;
         radius_x = (max_x - min_x) * width_factor / 2;
         radius_y = (max_y - min_y) * height_factor / 2
     in map (\<lambda>degree.
              (let rad = radians (of_int degree);
                   x = center_x + cos rad * radius_x;
                   y = center_y + sin rad * radius_y
               in [x, y]))
          (py_range 0 360 30))"

record Overlay =
  bounding_box :: "real list"
  zones :: "(string \<times> real list list) list"

text \<open>
  \<^verbatim>\<open>generate_overlay\<close>, lines 177 to 243. Unpacking \<^verbatim>\<open>zip(*points)\<close> into two names
  raises \<^verbatim>\<open>ValueError\<close> when there is no landmark. The dictionary of zones keeps its
  insertion order and is an association list.
\<close>

definition generate_overlay :: "string \<Rightarrow> landmark list \<Rightarrow> error + Overlay" where
  "generate_overlay shape points =
    (if points = [] then Inl (ValueError ''not enough values to unpack (expected 2, got 0)'')
     else
       (let xs = map fst points; ys = map snd points in
        bind_err (py_min xs) (\<lambda>min_x.
        bind_err (py_max xs) (\<lambda>max_x.
        bind_err (py_min ys) (\<lambda>min_y.
        bind_err (py_max ys) (\<lambda>max_y.
          (let bounding_box = [min_x, min_y, max_x, max_y];
               make_zone = make_zone min_x min_y max_x max_y;
               ellipse = ellipse min_x min_y max_x max_y;
               zones =
                 (if shape = ''round'' then
                    [(''contour'', make_zone ''contour'' 0.35 0.4 0.15),
                     (''blush'', ellipse 0.55 0.35 0.25),
                     (''highlight'', ellipse 0.4 0.2 0.2)]
                  else if shape = ''oval'' then
                    [(''contour'', make_zone ''contour'' 0.3 0.4 0.18),
                     (''blush'', ellipse 0.6 0.3 0.2),
                     (''highlight'', ellipse 0.38 0.2 0.18)]
                  else if shape = ''square'' then
                    [(''contour'', make_zone ''contour'' 0.3 0.5 0.1),
                     (''blush'', ellipse 0.58 0.32 0.18),
                     (''highlight'', ellipse 0.38 0.22 0.18)]
                  else if shape = ''heart'' then
                    [(''contour'', make_zone ''contour'' 0.25 0.45 0.12),
                     (''blush'', ellipse 0.55 0.28 0.18),
                     (''highlight'', ellipse 0.35 0.2 0.2)]
                  else if shape = ''oblong'' then
                    [(''contour'', make_zone ''contour'' 0.25 0.5 0.18),
                     (''blush'', ellipse 0.6 0.28 0.18),
                     (''highlight'', ellipse 0.42 0.22 0.18)]
                  else
                    [(''contour'', make_zone ''contour'' 0.28 0.45 0.1),
                     (''blush'', ellipse 0.55 0.32 0.2),
                     (''highlight'', ellipse 0.36 0.2 0.18)])
           in Inr \<lparr>bounding_box = bounding_box, zones = zones\<rparr>)))))))"

text \<open>
  The shapes of the zones as the specification describes them: a quadrilateral whose
  first and last points share one height and whose two middle points share another, and
  twelve points on an ellipse at steps of 30 degrees.
\<close>

definition is_trapezoid :: "real list list \<Rightarrow> bool" where
  "is_trapezoid zone =
    (case zone of [[x1, y1], [x2, y2], [x3, y3], [x4, y4]] \<Rightarrow> y1 = y4 \<and> y2 = y3 | _ \<Rightarrow> False)"

definition spec_ellipse :: "real \<Rightarrow> real \<Rightarrow> real \<Rightarrow> real \<Rightarrow> real list list" where
  "spec_ellipse center_x center_y radius_x radius_y =
    map (\<lambda>k. [center_x + cos (radians (30 * real k)) * radius_x,
               center_y + sin (radians (30 * real k)) * radius_y]) [0 ..< 12]"

definition known_overlay_shapes :: "string list" where
  "known_overlay_shapes = [''round'', ''oval'', ''square'', ''heart'', ''oblong'', ''diamond'']"

text \<open>
  The overlay as the specification describes it. The box of the landmarks; the contour
  quadrilateral, inset by a fraction of the box width, its top edge at \<open>factor_y\<close> and
  its bottom edge at \<open>factor_y + height\<close> of the box height, the top narrowed by 5% of
  the width on each side; the ellipse centred horizontally in the box, with radii half
  the given fractions of the box width and height; the table of constants for each
  shape, where a shape that is not in the table takes the constants of "diamond".
\<close>

definition landmark_box :: "landmark list \<Rightarrow> real \<times> real \<times> real \<times> real" where
  "landmark_box points =
    (Min (fst ` set points), Min (snd ` set points), Max (fst ` set points), Max (snd ` set points))"

definition spec_zone_quad :: "real \<times> real \<times> real \<times> real \<Rightarrow> real \<Rightarrow> real \<Rightarrow> real \<Rightarrow> real list list" where
  "spec_zone_quad box factor_y height inset =
    (case box of (min_x, min_y, max_x, max_y) \<Rightarrow>
      (let w = max_x - min_x; h = max_y - min_y;
           left = min_x + inset * w; right = max_x - inset * w;
           top = min_y + factor_y * h; bottom = min_y + (factor_y + height) * h
       in [[left, bottom], [left + 0.05 * w, top], [right - 0.05 * w, top], [right, bottom]]))"

definition spec_box_ellipse :: "real \<times> real \<times> real \<times> real \<Rightarrow> real \<Rightarrow> real \<Rightarrow> real \<Rightarrow> real list list" where
  "spec_box_ellipse box center_y_factor width_factor height_factor =
    (case box of (min_x, min_y, max_x, max_y) \<Rightarrow>
      spec_ellipse ((min_x + max_x) / 2) (min_y + center_y_factor * (max_y - min_y))
        (width_factor * (max_x - min_x) / 2) (height_factor * (max_y - min_y) / 2))"

type_synonym overlay_params = "(real \<times> real \<times> real) \<times> (real \<times> real \<times> real) \<times> (real \<times> real \<times> real)"

definition diamond_overlay_params :: overlay_params where
  "diamond_overlay_params = ((0.28, 0.45, 0.1), (0.55, 0.32, 0.2), (0.36, 0.2, 0.18))"

definition spec_overlay_table :: "(string \<times> overlay_params) list" where
  "spec_overlay_table =
    [(''round'', ((0.35, 0.4, 0.15), (0.55, 0.35, 0.25), (0.4, 0.2, 0.2))),
     (''oval'', ((0.3, 0.4, 0.18), (0.6, 0.3, 0.2), (0.38, 0.2, 0.18))),
     (''square'', ((0.3, 0.5, 0.1), (0.58, 0.32, 0.18), (0.38, 0.22, 0.18))),
     (''heart'', ((0.25, 0.45, 0.12), (0.55, 0.28, 0.18), (0.35, 0.2, 0.2))),
     (''oblong'', ((0.25, 0.5, 0.18), (0.6, 0.28, 0.18), (0.42, 0.22, 0.18))),
     (''diamond'', diamond_overlay_params)]"

definition spec_overlay_params :: "string \<Rightarrow> overlay_params" where
  "spec_overlay_params shape =
    (case map_of spec_overlay_table shape of None \<Rightarrow> diamond_overlay_params | Some params \<Rightarrow> params)"

definition spec_zones ::
  "real \<times> real \<times> real \<times> real \<Rightarrow> overlay_params \<Rightarrow> (string \<times> real list list) list" where
  "spec_zones box params =
    (case params of ((factor_y, height, inset), (c1, w1, h1), (c2, w2, h2)) \<Rightarrow>
      [(''contour'', spec_zone_quad box factor_y height inset),
       (''blush'', spec_box_ellipse box c1 w1 h1),
       (''highlight'', spec_box_ellipse box c2 w2 h2)])"

definition spec_overlay :: "string \<Rightarrow> landmark list \<Rightarrow> Overlay" where
  "spec_overlay shape points =
    (case landmark_box points of (min_x, min_y, max_x, max_y) \<Rightarrow>
      \<lparr>bounding_box = [min_x, min_y, max_x, max_y],
       zones = spec_zones (min_x, min_y, max_x, max_y) (spec_overlay_params shape)\<rparr>)"

definition two_landmarks :: "landmark list" where
  "two_landmarks = [(1, 2), (3, 0)]"

section \<open>The recommendation builder\<close>

text \<open>
  Dictionaries with string keys are association lists; \<^verbatim>\<open>d.get(key, default)\<close> and
  \<^verbatim>\<open>d[key]\<close>, which raises \<^verbatim>\<open>KeyError\<close> on a missing key.
\<close>

definition dict_get :: "(string \<times> 'v) list \<Rightarrow> string \<Rightarrow> 'v \<Rightarrow> 'v" where
  "dict_get d key dflt = (case map_of d key of None \<Rightarrow> dflt | Some v \<Rightarrow> v)"

definition dict_item :: "(string \<times> 'v) list \<Rightarrow> string \<Rightarrow> error + 'v" where
  "dict_item d key = (case map_of d key of None \<Rightarrow> Inl (KeyError key) | Some v \<Rightarrow> Inr v)"

definition palettes :: "(string \<times> (string \<times> string list) list) list" where
  "palettes =
    [(''warm'',
       [(''blush'', [''Peach'', ''Apricot'', ''Warm coral'']),
        (''eyes'', [''Bronze'', ''Warm taupe'', ''Olive green'']),
        (''lips'', [''Terracotta'', ''Warm nude'', ''Rust red''])]),
     (''cool'',
       [(''blush'', [''Rose'', ''Soft berry'', ''Cool pink'']),
        (''eyes'', [''Plum'', ''Soft grey'', ''Slate blue'']),
        (''lips'', [''Berry'', ''Cool mauve'', ''Blue-based red''])]),
     (''neutral'',
       [(''blush'', [''Dusty rose'', ''Neutral coral'', ''Soft mauve'']),
        (''eyes'', [''Champagne'', ''Neutral brown'', ''Soft copper'']),
        (''lips'', [''Rosewood'', ''Balanced nude'', ''Classic red''])])]"

text \<open>The closure \<^verbatim>\<open>shade_palette\<close>, lines 247 to 265, with the undertone it captures.\<close>

definition shade_palette :: "string \<Rightarrow> string \<Rightarrow> error + string list" where
  "shade_palette undertone category =
    bind_err (dict_item palettes ''neutral'') (\<lambda>dflt.
      dict_item (dict_get palettes undertone dflt) category)"

definition shape_guidance :: "(string \<times> (string \<times> string) list) list" where
  "shape_guidance =
    [(''round'',
       [(''blush'', ''Sweep blush above the apples and pull back toward temples.''),
        (''contour'', ''Contour beneath cheekbones and jawline for definition.''),
        (''highlight'', ''Highlight center of forehead, nose bridge, and chin.'')]),
     (''oval'',
       [(''blush'', ''Apply to apples and blend outward along cheekbones.''),
        (''contour'', ''Light contour under cheekbones and temples.''),
        (''highlight'', ''Highlight cheekbone tops, brow bone, and cupid's bow.'')]),
     (''square'',
       [(''blush'', ''Focus on cheek centers and blend softly to diffuse angles.''),
        (''contour'', ''Soften jawline and outer forehead, blending well.''),
        (''highlight'', ''Highlight center of face and cheekbone peaks.'')]),
     (''heart'',
       [(''blush'', ''Place blush lower on cheeks and blend upward.''),
        (''contour'', ''Shade sides of forehead and lightly under cheekbones.''),
        (''highlight'', ''Highlight cheekbones and cupid's bow subtly on forehead.'')]),
     (''oblong'',
       [(''blush'', ''Apply horizontally across cheeks to add width.''),
        (''contour'', ''Contour forehead top and chin to shorten appearance.''),
        (''highlight'', ''Highlight cheekbones and cupid's bow, skip chin.'')]),
     (''diamond'',
       [(''blush'', ''Tap blush on apples and curve outward to soften cheekbones.''),
        (''contour'', ''Contour under cheekbones tapering toward temples.''),
        (''highlight'', ''Highlight forehead center, nose bridge, and chin.'')])]"

text \<open>A value of a recommendation entry: a text or a list of texts.\<close>

datatype entry_value = Text string | Items "string list"

text \<open>
  \<^verbatim>\<open>build_recommendations\<close>, lines 246 to 323. The lookups come in the order in which
  Python evaluates the dictionary display it returns.
\<close>

definition build_recommendations ::
  "string \<Rightarrow> string \<Rightarrow> error + (string \<times> (string \<times> entry_value) list) list" where
  "build_recommendations shape undertone =
    bind_err (dict_item shape_guidance ''oval'') (\<lambda>dflt.
      (let base = dict_get shape_guidance shape dflt in
       bind_err (dict_item base ''blush'') (\<lambda>blush_details.
       bind_err (shade_palette undertone ''blush'') (\<lambda>blush_shades.
       bind_err (dict_item base ''contour'') (\<lambda>contour_details.
       bind_err (dict_item base ''highlight'') (\<lambda>highlight_details.
       bind_err (shade_palette undertone ''eyes'') (\<lambda>eyes_shades.
       bind_err (shade_palette undertone ''lips'') (\<lambda>lips_shades.
         Inr [(''blush'',
                [(''details'', Text blush_details),
                 (''suggested_shades'', Items blush_shades)]),
              (''contour'',
                [(''details'', Text contour_details),
                 (''suggested_finishes'',
                    Items [''Soft matte stick'', ''Sheer cream'', ''Buildable powder''])]),
              (''highlight'',
                [(''details'', Text highlight_details),
                 (''suggested_finishes'',
                    Items [''Cream luminizer'', ''Soft pearl powder'', ''Liquid glow''])]),
              (''eyes'',
                [(''details'', Text
                    ''Choose shades that complement your undertone and layer from matte to shimmer.''),
                 (''suggested_shades'', Items eyes_shades)]),
              (''lips'',
                [(''details'', Text
                    ''Match lip families to undertone; adjust intensity for day or night looks.''),
                 (''suggested_shades'', Items lips_shades)])]))))))))"

definition known_guidance_shapes :: "string list" where
  "known_guidance_shapes = map fst shape_guidance"

definition known_undertones :: "string list" where
  "known_undertones = map fst palettes"

text \<open>
  The recommendations as the specification describes them: a row of guidance texts for
  blush, contour and highlight for each shape, the row of "oval" for any other shape; a
  palette of shades for blush, eyes and lips for each undertone, the palette of
  "neutral" for any other undertone; and the five entries built from a row and a
  palette, with the fixed finishes of contour and highlight and the fixed texts of eyes
  and lips.
\<close>

definition oval_guidance :: "string \<times> string \<times> string" where
  "oval_guidance =
    (''Apply to apples and blend outward along cheekbones.'',
     ''Light contour under cheekbones and temples.'',
     ''Highlight cheekbone tops, brow bone, and cupid's bow.'')"

definition spec_guidance :: "string \<Rightarrow> string \<times> string \<times> string" where
  "spec_guidance shape =
    (if shape = ''round'' then
       (''Sweep blush above the apples and pull back toward temples.'',
        ''Contour beneath cheekbones and jawline for definition.'',
        ''Highlight center of forehead, nose bridge, and chin.'')
     else if shape = ''square'' then
       (''Focus on cheek centers and blend softly to diffuse angles.'',
        ''Soften jawline and outer forehead, blending well.'',
        ''Highlight center of face and cheekbone peaks.'')
     else if shape = ''heart'' then
       (''Place blush lower on cheeks and blend upward.'',
        ''Shade sides of forehead and lightly under cheekbones.'',
        ''Highlight cheekbones and cupid's bow subtly on forehead.'')
     else if shape = ''oblong'' then
       (''Apply horizontally across cheeks to add width.'',
        ''Contour forehead top and chin to shorten appearance.'',
        ''Highlight cheekbones and cupid's bow, skip chin.'')
     else if shape = ''diamond'' then
       (''Tap blush on apples and curve outward to soften cheekbones.'',
        ''Contour under cheekbones tapering toward temples.'',
        ''Highlight forehead center, nose bridge, and chin.'')
     else oval_guidance)"

definition neutral_palette :: "string list \<times> string list \<times> string list" where
  "neutral_palette =
    ([''Dusty rose'', ''Neutral coral'', ''Soft mauve''],
     [''Champagne'', ''Neutral brown'', ''Soft copper''],
     [''Rosewood'', ''Balanced nude'', ''Classic red''])"

definition spec_palette :: "string \<Rightarrow> string list \<times> string list \<times> string list" where
  "spec_palette undertone =
    (if undertone = ''warm'' then
       ([''Peach'', ''Apricot'', ''Warm coral''],
        [''Bronze'', ''Warm taupe'', ''Olive green''],
        [''Terracotta'', ''Warm nude'', ''Rust red''])
     else if undertone = ''cool'' then
       ([''Rose'', ''Soft berry'', ''Cool pink''],
        [''Plum'', ''Soft grey'', ''Slate blue''],
        [''Berry'', ''Cool mauve'', ''Blue-based red''])
     else neutral_palette)"

definition spec_recommendations ::
  "string \<times> string \<times> string \<Rightarrow> string list \<times> string list \<times> string list \<Rightarrow>
   (string \<times> (string \<times> entry_value) list) list" where
  "spec_recommendations row palette =
    (case row of (blush_text, contour_text, highlight_text) \<Rightarrow>
     case palette of (blush_shades, eyes_shades, lips_shades) \<Rightarrow>
      [(''blush'',
         [(''details'', Text blush_text), (''suggested_shades'', Items blush_shades)]),
       (''contour'',
         [(''details'', Text contour_text),
          (''suggested_finishes'',
             Items [''Soft matte stick'', ''Sheer cream'', ''Buildable powder''])]),
       (''highlight'',
         [(''details'', Text highlight_text),
          (''suggested_finishes'',
             Items [''Cream luminizer'', ''Soft pearl powder'', ''Liquid glow''])]),
       (''eyes'',
         [(''details'', Text
             ''Choose shades that complement your undertone and layer from matte to shimmer.''),
          (''suggested_shades'', Items eyes_shades)]),
       (''lips'',
         [(''details'', Text
             ''Match lip families to undertone; adjust intensity for day or night looks.''),
          (''suggested_shades'', Items lips_shades)])])"

section \<open>The symmetry insight\<close>

text \<open>
  The closure \<^verbatim>\<open>point\<close> of \<^verbatim>\<open>compute_symmetry\<close>: the \<^verbatim>\<open>IndexError\<close> of a missing
  landmark is caught and becomes \<^verbatim>\<open>None\<close>. In \<^verbatim>\<open>point(i) or fallback\<close> a landmark,
  being a pair, is always truthy, so the fallback is taken exactly for \<^verbatim>\<open>None\<close>.
\<close>

definition point :: "landmark list \<Rightarrow> nat \<Rightarrow> landmark option" where
  "point points idx = (case get_point points idx of Inl e \<Rightarrow> None | Inr p \<Rightarrow> Some p)"

definition py_or :: "landmark option \<Rightarrow> landmark \<Rightarrow> landmark" where
  "py_or v fallback = (case v of None \<Rightarrow> fallback | Some p \<Rightarrow> p)"

text \<open>\<^verbatim>\<open>np.arctan2(y, x)\<close>.\<close>

definition np_arctan2 :: "real \<Rightarrow> real \<Rightarrow> real" where
  "np_arctan2 y x =
    (if x > 0 then arctan (y / x)
     else if x < 0 then (if y \<ge> 0 then arctan (y / x) + pi else arctan (y / x) - pi)
     else if y > 0 then pi / 2
     else if y < 0 then - (pi / 2)
     else 0)"

record Symmetry =
  score :: real
  description :: string
  guidance :: string
  eye_delta :: real

text \<open>\<^verbatim>\<open>compute_symmetry\<close>, lines 356 to 403.\<close>

definition compute_symmetry :: "landmark list \<Rightarrow> real \<times> real \<times> real \<times> real \<Rightarrow> Symmetry" where
  "compute_symmetry points bbox =
    (case bbox of (min_x, min_y, max_x, max_y) \<Rightarrow>
      (let height = max (max_y - min_y) eps;
           width = max (max_x - min_x) eps;
           mid_x = (min_x + max_x) / 2;
           nose = py_or (point points 1) (mid_x, (min_y + max_y) / 2);
           left_cheek = py_or (point points 234) (min_x, (min_y + max_y) / 2);
           right_cheek = py_or (point points 454) (max_x, (min_y + max_y) / 2);
           left_dist = linalg_norm (vsub left_cheek nose);
           right_dist = linalg_norm (vsub right_cheek nose);
           max_dist = max (max left_dist right_dist) eps;
           balance_delta = \<bar>left_dist - right_dist\<bar> / max_dist;
           symmetry_score = max 0.0 (1.0 - min 1.0 balance_delta);
           description =
             (if symmetry_score \<ge> 0.9 then
                ''Highly balanced proportions across both sides of the face.''
              else if symmetry_score \<ge> 0.75 then
                ''Soft asymmetric accents add character and are easy to balance.''
              else
                ''Cheek widths vary more noticeably; thoughtful contour can even things out.'');
           guidance =
             (if symmetry_score \<ge> 0.85 then
                ''Mirror highlight and blush placement to emphasize your natural balance.''
              else if symmetry_score \<ge> 0.65 then
                ''Concentrate highlight on the higher cheekbone and blend contour upward on the fuller side.''
              else
                ''Use diagonal blush placement and tapered contour strokes to visually lift the softer side.'');
           left_eye = py_or (point points 159) (min_x, snd nose);
           right_eye = py_or (point points 386) (max_x, snd nose);
           eye_delta = \<bar>snd left_eye - snd right_eye\<bar>;
           eye_alignment_degrees = degrees (np_arctan2 eye_delta width)
       in \<lparr>score = symmetry_score, description = description, guidance = guidance,
           eye_delta = eye_alignment_degrees\<rparr>))"

section \<open>The skin-tone analyzer\<close>

text \<open>
  The image is a numpy array of shape height by width by 3 with elements of type
  \<^verbatim>\<open>uint8\<close>: its two dimensions and the pixel at a row and a column.
\<close>

type_synonym pixel = "8 word \<times> 8 word \<times> 8 word"

record rgb_image =
  img_height :: nat
  img_width :: nat
  img_at :: "nat \<Rightarrow> nat \<Rightarrow> pixel"

text \<open>
  \<^verbatim>\<open>int(v)\<close> on a float and \<^verbatim>\<open>astype(np.int32)\<close>: truncation towards zero.
\<close>

definition py_int :: "real \<Rightarrow> int" where
  "py_int v = (if v \<ge> 0 then \<lfloor>v\<rfloor> else \<lceil>v\<rceil>)"

text \<open>
  \<^verbatim>\<open>rgb_to_lab\<close>, lines 155 to 174, with its two inner functions. \<^verbatim>\<open>np.where\<close>
  selects per element; the base of each power is positive in the branch that takes it.
\<close>

definition gamma_correct :: "real \<Rightarrow> real" where
  "gamma_correct channel =
    (if channel \<le> 0.04045 then channel / 12.92 else ((channel + 0.055) / 1.055) powr 2.4)"

definition lab_f :: "real \<Rightarrow> real" where
  "lab_f component =
    (if component > 0.008856 then component powr (1 / 3)
     else (7.787 * component) + (16 / 116))"

definition rgb_to_lab :: "real \<times> real \<times> real \<Rightarrow> real \<times> real \<times> real" where
  "rgb_to_lab rgb =
    (case rgb of (r0, g0, b0) \<Rightarrow>
      (let r = gamma_correct r0; g = gamma_correct g0; b = gamma_correct b0;
           x = (0.4124 * r + 0.3576 * g + 0.1805 * b) / 0.95047;
           y = (0.2126 * r + 0.7152 * g + 0.0722 * b);
           z = (0.0193 * r + 0.1192 * g + 0.9505 * b) / 1.08883;
           fx = lab_f x; fy = lab_f y; fz = lab_f z;
           l = (116 * fy) - 16;
           a = 500 * (fx - fy);
           b_val = 200 * (fy - fz)
       in (l, a, b_val)))"

text \<open>
  \<^verbatim>\<open>np.arctan(n / d)\<close> on numpy floats: a division by zero does not raise, it gives
  an infinity, whose arc tangent is a right angle, or, for 0 / 0, NaN, which is
  \<^verbatim>\<open>None\<close> here.
\<close>

definition np_arctan_quot :: "real \<Rightarrow> real \<Rightarrow> real option" where
  "np_arctan_quot n d =
    (if d \<noteq> 0 then Some (arctan (n / d))
     else if n > 0 then Some (pi / 2)
     else if n < 0 then Some (- (pi / 2))
     else None)"

text \<open>
  Lines 131 to 150 of \<^verbatim>\<open>analyze_skin_tone\<close>: from the average colour to the tone and
  the undertone. Every comparison with NaN is false, so a NaN angle ends in the last
  branch of the tone conditional.
\<close>

definition skin_tone_of_rgb :: "real \<times> real \<times> real \<Rightarrow> string \<times> string" where
  "skin_tone_of_rgb avg_rgb =
    (case avg_rgb of (r, g, b) \<Rightarrow>
      (case rgb_to_lab (r / 255.0, g / 255.0, b / 255.0) of (lab0, lab1, lab2) \<Rightarrow>
        (let ita = map_option degrees (np_arctan_quot (lab0 - 50.0) (lab2 + eps));
             tone = (case ita of None \<Rightarrow> ''deep'' | Some i \<Rightarrow> tone_of_ita i);
             undertone =
               (if lab1 < - 2 \<and> lab2 < 10 then ''cool''
                else if lab2 > 15 then ''warm''
                else ''neutral'')
         in (tone, undertone))))"

text \<open>\<^verbatim>\<open>np.mean(pixels, axis=0)\<close> on a list of pixels that is not empty.\<close>

definition mean_rgb :: "pixel list \<Rightarrow> real \<times> real \<times> real" where
  "mean_rgb pixels =
    (let n = real (length pixels)
     in (sum_list (map (\<lambda>(r, g, b). real (unat r)) pixels) / n,
         sum_list (map (\<lambda>(r, g, b). real (unat g)) pixels) / n,
         sum_list (map (\<lambda>(r, g, b). real (unat b)) pixels) / n))"

text \<open>
  Lines 120 to 124: the polygon of the four cheek landmarks with integer coordinates and
  the mask. \<^verbatim>\<open>cv2.fillConvexPoly\<close> is OpenCV's; it is the parameter \<open>fill\<close>, which
  says, for the height and width of the mask and the polygon, whether the entry at a row
  and a column is set to 255. The mask starts as zeros with the shape of the image.
\<close>

type_synonym fill_poly = "nat \<Rightarrow> nat \<Rightarrow> (int \<times> int) list \<Rightarrow> nat \<Rightarrow> nat \<Rightarrow> bool"

definition cheek_polygon :: "landmark list \<Rightarrow> error + (int \<times> int) list" where
  "cheek_polygon points =
    bind_err (get_point points 93) (\<lambda>p93.
    bind_err (get_point points 227) (\<lambda>p227.
    bind_err (get_point points 137) (\<lambda>p137.
    bind_err (get_point points 177) (\<lambda>p177.
      Inr (map (\<lambda>(x, y). (py_int x, py_int y)) [p93, p227, p137, p177])))))"

definition cheek_mask :: "fill_poly \<Rightarrow> rgb_image \<Rightarrow> (int \<times> int) list \<Rightarrow> nat \<Rightarrow> nat \<Rightarrow> 8 word" where
  "cheek_mask fill img polygon row col =
    (if fill (img_height img) (img_width img) polygon row col then 255 else 0)"

text \<open>The positions at which \<^verbatim>\<open>mask == 255\<close> holds, in row-major order.\<close>

definition mask_positions :: "rgb_image \<Rightarrow> (nat \<Rightarrow> nat \<Rightarrow> 8 word) \<Rightarrow> (nat \<times> nat) list" where
  "mask_positions img mask255 =
    [(row, col). row \<leftarrow> [0 ..< img_height img], col \<leftarrow> [0 ..< img_width img],
                 mask255 row col = 255]"

text \<open>
  \<^verbatim>\<open>analyze_skin_tone\<close>, lines 119 to 152. \<^verbatim>\<open>image[mask == 255]\<close> is the list of the
  pixels at the positions of the mask; its \<^verbatim>\<open>size\<close> counts three channels a pixel.
\<close>

definition analyze_skin_tone ::
  "fill_poly \<Rightarrow> rgb_image \<Rightarrow> landmark list \<Rightarrow> error + (string \<times> string \<times> (int \<times> int \<times> int))" where
  "analyze_skin_tone fill img points =
    bind_err (cheek_polygon points) (\<lambda>cheek_points.
      (let mask255 = cheek_mask fill img cheek_points;
           pixels = map (\<lambda>(row, col). img_at img row col) (mask_positions img mask255)
       in if 3 * length pixels = 0 then
            Inl (ValueError ''Insufficient data for skin tone analysis. Try again.'')
          else
            (let avg_rgb = mean_rgb pixels in
             case skin_tone_of_rgb avg_rgb of (tone, undertone) \<Rightarrow>
               (case avg_rgb of (r, g, b) \<Rightarrow>
                 Inr (tone, undertone, (py_int r, py_int g, py_int b))))))"

text \<open>
  The colour conversion as the specification describes it, in three stages: sRGB gamma
  decoding, linear below 0.04045 and a power law of 2.4 above; the linear transform to
  CIE XYZ by the sRGB/D65 matrix; and, relative to the D65 white point, the XYZ to Lab
  nonlinearity, a cube root above 0.008856 and a linear approximation below.
\<close>

definition spec_srgb_decode :: "real \<Rightarrow> real" where
  "spec_srgb_decode c =
    (if c > 0.04045 then ((c + 0.055) / 1.055) powr 2.4 else c / 12.92)"

definition srgb_d65_matrix :: "real list list" where
  "srgb_d65_matrix =
    [[0.4124, 0.3576, 0.1805],
     [0.2126, 0.7152, 0.0722],
     [0.0193, 0.1192, 0.9505]]"

definition d65_white :: "real list" where
  "d65_white = [0.95047, 1, 1.08883]"

definition mat_vec :: "real list list \<Rightarrow> real list \<Rightarrow> real list" where
  "mat_vec m v = map (\<lambda>row. sum_list (map2 (*) row v)) m"

definition spec_lab_nonlinearity :: "real \<Rightarrow> real" where
  "spec_lab_nonlinearity t = (if t > 0.008856 then root 3 t else 7.787 * t + 16 / 116)"

definition spec_rgb_to_lab :: "real \<times> real \<times> real \<Rightarrow> real \<times> real \<times> real" where
  "spec_rgb_to_lab rgb =
    (case rgb of (r, g, b) \<Rightarrow>
      (let linear = map spec_srgb_decode [r, g, b];
           xyz = mat_vec srgb_d65_matrix linear;
           f = map2 (\<lambda>c w. spec_lab_nonlinearity (c / w)) xyz d65_white
       in (116 * f ! 1 - 16, 500 * (f ! 0 - f ! 1), 200 * (f ! 1 - f ! 2))))"

text \<open>
  The Individual Typology Angle as the specification gives it, in degrees, from the
  lightness and the blue-yellow coordinate.
\<close>

definition spec_ita :: "real \<Rightarrow> real \<Rightarrow> real" where
  "spec_ita l b = degrees (arctan ((l - 50) / (b + eps)))"

text \<open>
  Inputs for the examples: 468 landmarks at the origin, an image of one black pixel, a
  fill that sets every entry and a fill that sets none.
\<close>

definition origin_landmarks :: "landmark list" where
  "origin_landmarks = replicate 468 (0, 0)"

definition black_pixel_image :: rgb_image where
  "black_pixel_image = \<lparr>img_height = 1, img_width = 1, img_at = (\<lambda>row col. (0, 0, 0))\<rparr>"

definition fill_all :: fill_poly where
  "fill_all h w polygon row col = True"

definition fill_none :: fill_poly where
  "fill_none h w polygon row col = False"

section \<open>The face-shape classifier follows the decision tree\<close>

lemma py_div_nonzero: "b \<noteq> 0 \<Longrightarrow> py_div a b = Inr (a / b)"
  by (simp add: py_div_def)

lemma eps_pos: "0 < eps"
  by (simp add: eps_def)

text \<open>
  Claim C1. For face dimensions with non-negative widths, \<^verbatim>\<open>classify_face\<close> raises
  nothing and returns the shape that the decision tree of the specification selects
  from the ratios length / (mean width + 1e-6), cheekbone / (jaw + 1e-6) and
  forehead / (jaw + 1e-6), the first rule whose guard holds deciding; the dimensions
  forehead 130, cheekbone 150, jaw 120, length 200, jaw angle 1.5 give "oblong".
\<close>

theorem classify_face_decision_tree:
  assumes "0 \<le> forehead_width d" and "0 \<le> cheekbone_width d" and "0 \<le> jaw_width d"
  shows "(\<exists>shape. classify_face d = Inr shape \<and> spec_decision_tree d = Some shape)
    \<and> classify_face scenario_dimensions = Inr ''oblong''"
proof -
  have w: "spec_width_avg d + eps \<noteq> 0"
    using assms eps_pos by (simp add: spec_width_avg_def add_nonneg_pos less_imp_neq[symmetric])
  have j: "jaw_width d + eps \<noteq> 0"
    using assms eps_pos by (simp add: add_nonneg_pos less_imp_neq[symmetric])
  have c: "classify_face d =
      Inr (if spec_length_ratio d < 1.05 then spec_rule1 d
           else if spec_length_ratio d \<ge> 1.35 then spec_rule2 d
           else spec_rule3 d)"
    using w j
    by (simp add: classify_face_def Let_def py_div_nonzero spec_width_avg_def
        spec_length_ratio_def spec_cheek_to_jaw_def spec_forehead_to_jaw_def
        spec_rule1_def spec_rule2_def spec_rule3_def)
  have t: "\<exists>shape. classify_face d = Inr shape \<and> spec_decision_tree d = Some shape"
    unfolding c spec_decision_tree_def by auto
  have s: "classify_face scenario_dimensions = Inr ''oblong''"
    by (simp add: classify_face_def scenario_dimensions_def py_div_def eps_def Let_def)
  from t s show ?thesis by blast
qed

theorem classify_face_decision_tree_witness:
  "0 \<le> forehead_width scenario_dimensions \<and> 0 \<le> cheekbone_width scenario_dimensions
   \<and> 0 \<le> jaw_width scenario_dimensions
   \<and> spec_decision_tree scenario_dimensions = Some ''oblong''"
proof -
  have h: "0 \<le> forehead_width scenario_dimensions" "0 \<le> cheekbone_width scenario_dimensions"
    "0 \<le> jaw_width scenario_dimensions"
    by (simp_all add: scenario_dimensions_def)
  from classify_face_decision_tree [OF h] h show ?thesis by auto
qed

section \<open>Tone buckets are monotone in the typology angle\<close>

text \<open>
  Claim C9. The tone is monotone in the Individual Typology Angle: when ita1 is at most
  ita2, the bucket of ita2 is not below the bucket of ita1 in the order
  deep, tan, medium, light, very light.
\<close>

theorem tone_of_ita_monotone:
  assumes "ita1 \<le> ita2"
  shows "tone_rank (tone_of_ita ita1) \<le> tone_rank (tone_of_ita ita2)"
  using assms by (simp add: tone_of_ita_def tone_rank_def)

theorem tone_of_ita_monotone_witness:
  "(30::real) \<le> 45 \<and> tone_of_ita 30 = ''medium'' \<and> tone_of_ita 45 = ''light''
   \<and> tone_rank (tone_of_ita 30) \<le> tone_rank (tone_of_ita 45)"
proof -
  have h: "(30::real) \<le> 45" by simp
  from tone_of_ita_monotone [OF h] show ?thesis by (simp add: tone_of_ita_def)
qed

section \<open>Range of the jaw-definition score\<close>

text \<open>
  Claim C10. For every face dimensions record, \<^verbatim>\<open>compute_jaw_definition\<close> returns a
  value between 0.5 and 1.0: the jaw angle is normalised over the window from 25 to 50
  degrees and clamped to the unit interval, and one minus the distance of a clamped
  value from 0.5 cannot fall below 0.5. Both ends are reached: 0.5 at a jaw angle of 0
  and 1.0 at 37.5 degrees, the middle of the window.
\<close>

theorem compute_jaw_definition_range:
  "0.5 \<le> compute_jaw_definition d \<and> compute_jaw_definition d \<le> 1.0
   \<and> compute_jaw_definition (d\<lparr>jaw_angle := 0\<rparr>) = 0.5
   \<and> compute_jaw_definition (d\<lparr>jaw_angle := radians 37.5\<rparr>) = 1.0"
proof -
  have r: "0.5 \<le> compute_jaw_definition d \<and> compute_jaw_definition d \<le> 1.0"
    by (simp add: compute_jaw_definition_def Let_def max_def min_def abs_if)
  have lo: "compute_jaw_definition (d\<lparr>jaw_angle := 0\<rparr>) = 0.5"
    by (simp add: compute_jaw_definition_def Let_def radians_def)
  have hi: "compute_jaw_definition (d\<lparr>jaw_angle := radians 37.5\<rparr>) = 1.0"
    by (simp add: compute_jaw_definition_def Let_def radians_def field_simps)
  from r lo hi show ?thesis by blast
qed

section \<open>The dimension measurer returns bounded values\<close>

lemma get_point_in_range: "idx < length points \<Longrightarrow> get_point points idx = Inr (points ! idx)"
  by (simp add: get_point_def)

lemma linalg_norm_nonneg: "0 \<le> linalg_norm v"
  by (simp add: linalg_norm_def)

lemma distance_nonneg: "0 \<le> distance a b"
  by (simp add: distance_def linalg_norm_nonneg)

lemma clip_unit: "- 1 \<le> clip x (- 1) 1 \<and> clip x (- 1) 1 \<le> 1"
  by (simp add: clip_def min_def max_def)

lemma arccos_clip_range: "0 \<le> arccos (clip x (- 1) 1) \<and> arccos (clip x (- 1) 1) \<le> pi"
  using clip_unit [of x] by (simp add: arccos_lbound arccos_ubound)

text \<open>
  Claim C5. On a landmark list that has every index the measurer reads (the largest is
  454), \<^verbatim>\<open>calculate_dimensions\<close> raises nothing, its four widths and lengths are
  not negative, and the jaw angle lies between 0 and pi, the cosine being clipped to
  the interval from -1 to 1 before the arc cosine is taken.
\<close>

theorem calculate_dimensions_range:
  assumes "454 < length points"
  shows "\<exists>d. calculate_dimensions points = Inr d
    \<and> 0 \<le> forehead_width d \<and> 0 \<le> cheekbone_width d \<and> 0 \<le> jaw_width d
    \<and> 0 \<le> face_length d \<and> 0 \<le> jaw_angle d \<and> jaw_angle d \<le> pi"
  using assms arccos_clip_range
  by (simp add: calculate_dimensions_def get_point_in_range bind_err_def Let_def distance_nonneg)

theorem calculate_dimensions_range_witness:
  "454 < length (replicate 468 (0::real, 0::real))
   \<and> calculate_dimensions (replicate 468 (0, 0)) =
       Inr \<lparr>forehead_width = 0, cheekbone_width = 0, jaw_width = 0, face_length = 0,
            jaw_angle = pi / 2\<rparr>
   \<and> 0 \<le> pi / 2 \<and> pi / 2 \<le> pi"
proof -
  have h: "454 < length (replicate 468 (0::real, 0::real))" by simp
  have e: "calculate_dimensions (replicate 468 (0, 0)) =
       Inr \<lparr>forehead_width = 0, cheekbone_width = 0, jaw_width = 0, face_length = 0,
            jaw_angle = pi / 2\<rparr>"
    by (simp add: calculate_dimensions_def get_point_def bind_err_def Let_def distance_def
        linalg_norm_def vsub_def dot_def clip_def)
  from calculate_dimensions_range [OF h] e show ?thesis by simp
qed

section \<open>The overlay generator\<close>

lemma fold_py_min: "fold (\<lambda>v m. if v < m then v else m) xs (x::real) = Min (set (x # xs))"
proof -
  have "(\<lambda>v m. if v < m then v else m) = (min :: real \<Rightarrow> real \<Rightarrow> real)"
    by (auto simp: fun_eq_iff min_def)
  then show ?thesis using Min.set_eq_fold [of x xs] by simp
qed

lemma fold_py_max: "fold (\<lambda>v m. if v > m then v else m) xs (x::real) = Max (set (x # xs))"
proof -
  have "(\<lambda>v m. if v > m then v else m) = (max :: real \<Rightarrow> real \<Rightarrow> real)"
    by (auto simp: fun_eq_iff max_def)
  then show ?thesis using Max.set_eq_fold [of x xs] by simp
qed

lemma py_min_Min: "xs \<noteq> [] \<Longrightarrow> py_min xs = Inr (Min (set xs))"
  by (cases xs) (simp_all add: fold_py_min del: fold_simps)

lemma py_max_Max: "xs \<noteq> [] \<Longrightarrow> py_max xs = Inr (Max (set xs))"
  by (cases xs) (simp_all add: fold_py_max del: fold_simps)

lemma generate_overlay_box:
  assumes "points \<noteq> []"
  shows "\<exists>zs. generate_overlay shape points =
     Inr \<lparr>bounding_box = [Min (fst ` set points), Min (snd ` set points),
                           Max (fst ` set points), Max (snd ` set points)], zones = zs\<rparr>"
  using assms
  by (simp add: generate_overlay_def Let_def py_min_Min py_max_Max bind_err_def)

text \<open>
  Claim C7. For a landmark list that is not empty, the bounding box of
  \<^verbatim>\<open>generate_overlay\<close> is the smallest and largest coordinate on each axis, so
  min_x is at most max_x and min_y at most max_y.
\<close>

theorem generate_overlay_bounding_box:
  assumes "points \<noteq> []"
  shows "\<exists>ov min_x min_y max_x max_y. generate_overlay shape points = Inr ov
     \<and> bounding_box ov = [min_x, min_y, max_x, max_y]
     \<and> min_x = Min (fst ` set points) \<and> max_x = Max (fst ` set points)
     \<and> min_y = Min (snd ` set points) \<and> max_y = Max (snd ` set points)
     \<and> min_x \<le> max_x \<and> min_y \<le> max_y"
proof -
  from generate_overlay_box [OF assms] obtain zs where
    "generate_overlay shape points =
     Inr \<lparr>bounding_box = [Min (fst ` set points), Min (snd ` set points),
                           Max (fst ` set points), Max (snd ` set points)], zones = zs\<rparr>"
    by blast
  moreover have "Min (fst ` set points) \<le> Max (fst ` set points)"
    using assms by (simp add: Min_le_iff)
  moreover have "Min (snd ` set points) \<le> Max (snd ` set points)"
    using assms by (simp add: Min_le_iff)
  ultimately show ?thesis by simp
qed

theorem generate_overlay_bounding_box_witness:
  "[(1::real, 2::real), (3, 0)] \<noteq> []
   \<and> (\<exists>ov. generate_overlay ''oval'' [(1, 2), (3, 0)] = Inr ov \<and> bounding_box ov = [1, 0, 3, 2])
   \<and> (1::real) \<le> 3 \<and> (0::real) \<le> 2"
proof -
  have h: "[(1::real, 2::real), (3, 0)] \<noteq> []" by simp
  from generate_overlay_bounding_box [OF h, of "''oval''"] show ?thesis by auto
qed

lemma py_range_30: "py_range 0 360 30 = map (\<lambda>k. 30 * int k) [0 ..< 12]"
  by (simp add: py_range_def)

lemma make_zone_spec:
  "make_zone a b c d t fy h i = spec_zone_quad (a, b, c, d) fy h i"
  by (simp add: make_zone_def spec_zone_quad_def Let_def algebra_simps)

lemma ellipse_spec:
  "ellipse a b c d cy wfac hfac = spec_box_ellipse (a, b, c, d) cy wfac hfac"
  unfolding ellipse_def spec_box_ellipse_def spec_ellipse_def py_range_30 Let_def map_map prod.case
  by (rule map_cong) (simp_all add: o_def algebra_simps)

lemma spec_zone_quad_length: "length (spec_zone_quad box fy h i) = 4"
  by (cases box) (simp add: spec_zone_quad_def Let_def)

lemma spec_zone_quad_trapezoid: "is_trapezoid (spec_zone_quad box fy h i)"
  by (cases box) (simp add: spec_zone_quad_def is_trapezoid_def Let_def)

lemma spec_box_ellipse_length: "length (spec_box_ellipse box cy wfac hfac) = 12"
  by (cases box) (simp add: spec_box_ellipse_def spec_ellipse_def)

lemma spec_overlay_params_unknown:
  "shape \<notin> set known_overlay_shapes \<Longrightarrow> spec_overlay_params shape = diamond_overlay_params"
  by (simp add: spec_overlay_params_def spec_overlay_table_def known_overlay_shapes_def)

lemma generate_overlay_spec:
  assumes "points \<noteq> []"
  shows "generate_overlay shape points = Inr (spec_overlay shape points)"
  using assms
  by (simp add: generate_overlay_def Let_def py_min_Min py_max_Max bind_err_def
      make_zone_spec ellipse_spec spec_overlay_def landmark_box_def spec_zones_def
      spec_overlay_params_def spec_overlay_table_def diamond_overlay_params_def)

lemma spec_overlay_zones:
  "zones (spec_overlay shape points) = spec_zones (landmark_box points) (spec_overlay_params shape)"
  by (cases "landmark_box points") (simp add: spec_overlay_def)

lemma spec_zones_form:
  "\<exists>contour blush highlight.
      spec_zones box params = [(''contour'', contour), (''blush'', blush), (''highlight'', highlight)]
      \<and> length contour = 4 \<and> is_trapezoid contour \<and> length blush = 12 \<and> length highlight = 12"
  by (simp add: spec_zones_def spec_zone_quad_length spec_zone_quad_trapezoid
      spec_box_ellipse_length split: prod.splits)

text \<open>
  Claim C4. For every shape string and every landmark list that is not empty,
  \<^verbatim>\<open>generate_overlay\<close> returns the overlay of the specification: the box of the
  landmarks and exactly the zones "contour", "blush" and "highlight", in that order,
  built in that box from the constants of the shape. The contour has four points and is
  a trapezoid; blush and highlight have twelve points each, on an ellipse at steps of
  30 degrees. For a shape outside the six known ones the zones are those of the
  constants of "diamond".
\<close>

theorem generate_overlay_zones:
  assumes "points \<noteq> []"
  shows "\<exists>ov contour blush highlight.
      generate_overlay shape points = Inr ov
      \<and> ov = spec_overlay shape points
      \<and> zones ov = [(''contour'', contour), (''blush'', blush), (''highlight'', highlight)]
      \<and> length contour = 4 \<and> is_trapezoid contour \<and> length blush = 12 \<and> length highlight = 12
      \<and> (shape \<notin> set known_overlay_shapes \<longrightarrow>
            zones ov = spec_zones (landmark_box points) diamond_overlay_params)"
proof -
  obtain contour blush highlight where
    z: "spec_zones (landmark_box points) (spec_overlay_params shape) =
          [(''contour'', contour), (''blush'', blush), (''highlight'', highlight)]"
      "length contour = 4" "is_trapezoid contour" "length blush = 12" "length highlight = 12"
    using spec_zones_form by blast
  have f: "shape \<notin> set known_overlay_shapes \<longrightarrow>
      zones (spec_overlay shape points) = spec_zones (landmark_box points) diamond_overlay_params"
    by (simp add: spec_overlay_zones spec_overlay_params_unknown)
  from generate_overlay_spec [OF assms] z f show ?thesis
    by (simp add: spec_overlay_zones)
qed

lemma two_landmarks_box: "landmark_box two_landmarks = (1, 0, 3, 2)"
  by (simp add: landmark_box_def two_landmarks_def)

theorem generate_overlay_zones_witness:
  "two_landmarks \<noteq> [] \<and> ''triangle'' \<notin> set known_overlay_shapes
   \<and> generate_overlay ''triangle'' two_landmarks =
       Inr \<lparr>bounding_box = [1, 0, 3, 2],
            zones = [(''contour'', [[1.2, 1.46], [1.3, 0.56], [2.7, 0.56], [2.8, 1.46]]),
                     (''blush'', spec_ellipse 2 1.1 0.32 0.2),
                     (''highlight'', spec_ellipse 2 0.72 0.2 0.18)]\<rparr>"
proof -
  have h: "two_landmarks \<noteq> []" by (simp add: two_landmarks_def)
  have k: "''triangle'' \<notin> set known_overlay_shapes" by (simp add: known_overlay_shapes_def)
  from generate_overlay_zones [OF h, of "''triangle''"] k
  obtain ov where o: "generate_overlay ''triangle'' two_landmarks = Inr ov"
    "ov = spec_overlay ''triangle'' two_landmarks"
    "zones ov = spec_zones (landmark_box two_landmarks) diamond_overlay_params"
    by blast
  have b: "bounding_box ov = [1, 0, 3, 2]"
    unfolding o(2) by (simp add: spec_overlay_def two_landmarks_box)
  have z: "zones ov = [(''contour'', [[1.2, 1.46], [1.3, 0.56], [2.7, 0.56], [2.8, 1.46]]),
                     (''blush'', spec_ellipse 2 1.1 0.32 0.2),
                     (''highlight'', spec_ellipse 2 0.72 0.2 0.18)]"
    unfolding o(3) two_landmarks_box
    by (simp add: spec_zones_def diamond_overlay_params_def spec_zone_quad_def
        spec_box_ellipse_def Let_def)
  have "ov = \<lparr>bounding_box = [1, 0, 3, 2],
            zones = [(''contour'', [[1.2, 1.46], [1.3, 0.56], [2.7, 0.56], [2.8, 1.46]]),
                     (''blush'', spec_ellipse 2 1.1 0.32 0.2),
                     (''highlight'', spec_ellipse 2 0.72 0.2 0.18)]\<rparr>"
    using b z by (cases ov) simp
  with h k o(1) show ?thesis by simp
qed

section \<open>The recommendation builder is a total lookup\<close>

lemma guidance_oval:
  "dict_item shape_guidance ''oval'' =
     Inr [(''blush'', fst oval_guidance), (''contour'', fst (snd oval_guidance)),
          (''highlight'', snd (snd oval_guidance))]"
  by (simp add: shape_guidance_def dict_item_def oval_guidance_def)

lemma guidance_lookup:
  "dict_get shape_guidance shape
      [(''blush'', fst oval_guidance), (''contour'', fst (snd oval_guidance)),
       (''highlight'', snd (snd oval_guidance))] =
     [(''blush'', fst (spec_guidance shape)), (''contour'', fst (snd (spec_guidance shape))),
      (''highlight'', snd (snd (spec_guidance shape)))]"
  by (simp add: shape_guidance_def dict_get_def spec_guidance_def oval_guidance_def)

lemma palette_neutral:
  "dict_item palettes ''neutral'' =
     Inr [(''blush'', fst neutral_palette), (''eyes'', fst (snd neutral_palette)),
          (''lips'', snd (snd neutral_palette))]"
  by (simp add: palettes_def dict_item_def neutral_palette_def)

lemma palette_lookup:
  "dict_get palettes undertone
      [(''blush'', fst neutral_palette), (''eyes'', fst (snd neutral_palette)),
       (''lips'', snd (snd neutral_palette))] =
     [(''blush'', fst (spec_palette undertone)), (''eyes'', fst (snd (spec_palette undertone))),
      (''lips'', snd (snd (spec_palette undertone)))]"
  by (simp add: palettes_def dict_get_def spec_palette_def neutral_palette_def)

lemma shade_palette_spec:
  "shade_palette undertone ''blush'' = Inr (fst (spec_palette undertone))"
  "shade_palette undertone ''eyes'' = Inr (fst (snd (spec_palette undertone)))"
  "shade_palette undertone ''lips'' = Inr (snd (snd (spec_palette undertone)))"
  unfolding shade_palette_def palette_neutral
  by (simp_all add: bind_err_def palette_lookup dict_item_def)

lemma build_recommendations_spec:
  "build_recommendations shape undertone =
     Inr (spec_recommendations (spec_guidance shape) (spec_palette undertone))"
  unfolding build_recommendations_def guidance_oval
  by (simp add: bind_err_def Let_def guidance_lookup dict_item_def shade_palette_spec
      spec_recommendations_def split: prod.splits)

lemma spec_guidance_unknown:
  "shape \<notin> set known_guidance_shapes \<Longrightarrow> spec_guidance shape = oval_guidance"
  by (simp add: spec_guidance_def known_guidance_shapes_def shape_guidance_def)

lemma spec_palette_unknown:
  "undertone \<notin> set known_undertones \<Longrightarrow> spec_palette undertone = neutral_palette"
  by (simp add: spec_palette_def known_undertones_def palettes_def)

text \<open>
  Claim C8. For every shape string and undertone string, \<^verbatim>\<open>build_recommendations\<close>
  raises nothing and returns the recommendations of the specification: the five entries
  blush, contour, highlight, eyes and lips, with the guidance texts of the shape, the
  shades of the undertone and the fixed finishes of contour and highlight, whatever the
  undertone. For a shape that is not a key of the guidance table the texts are those of
  "oval"; for an undertone that is not a key of the palette table the shades are those
  of "neutral".
\<close>

theorem build_recommendations_lookup:
  "build_recommendations shape undertone =
      Inr (spec_recommendations (spec_guidance shape) (spec_palette undertone))
   \<and> map fst (spec_recommendations (spec_guidance shape) (spec_palette undertone)) =
        [''blush'', ''contour'', ''highlight'', ''eyes'', ''lips'']
   \<and> (shape \<notin> set known_guidance_shapes \<longrightarrow>
         build_recommendations shape undertone =
           Inr (spec_recommendations oval_guidance (spec_palette undertone)))
   \<and> (undertone \<notin> set known_undertones \<longrightarrow>
         build_recommendations shape undertone =
           Inr (spec_recommendations (spec_guidance shape) neutral_palette))"
proof -
  have n: "map fst (spec_recommendations row palette) =
        [''blush'', ''contour'', ''highlight'', ''eyes'', ''lips'']" for row palette
    by (simp add: spec_recommendations_def split: prod.splits)
  show ?thesis
    using build_recommendations_spec [of shape undertone] n
    by (simp add: spec_guidance_unknown spec_palette_unknown)
qed

theorem build_recommendations_lookup_witness:
  "''triangle'' \<notin> set known_guidance_shapes \<and> ''olive'' \<notin> set known_undertones
   \<and> build_recommendations ''triangle'' ''olive'' =
       Inr [(''blush'',
              [(''details'', Text ''Apply to apples and blend outward along cheekbones.''),
               (''suggested_shades'', Items [''Dusty rose'', ''Neutral coral'', ''Soft mauve''])]),
            (''contour'',
              [(''details'', Text ''Light contour under cheekbones and temples.''),
               (''suggested_finishes'',
                  Items [''Soft matte stick'', ''Sheer cream'', ''Buildable powder''])]),
            (''highlight'',
              [(''details'', Text ''Highlight cheekbone tops, brow bone, and cupid's bow.''),
               (''suggested_finishes'',
                  Items [''Cream luminizer'', ''Soft pearl powder'', ''Liquid glow''])]),
            (''eyes'',
              [(''details'', Text
                  ''Choose shades that complement your undertone and layer from matte to shimmer.''),
               (''suggested_shades'', Items [''Champagne'', ''Neutral brown'', ''Soft copper''])]),
            (''lips'',
              [(''details'', Text
                  ''Match lip families to undertone; adjust intensity for day or night looks.''),
               (''suggested_shades'', Items [''Rosewood'', ''Balanced nude'', ''Classic red''])])]"
proof -
  have k: "''triangle'' \<notin> set known_guidance_shapes"
    by (simp add: known_guidance_shapes_def shape_guidance_def)
  have u: "''olive'' \<notin> set known_undertones"
    by (simp add: known_undertones_def palettes_def)
  note t = build_recommendations_lookup [of "''triangle''" "''olive''"]
  from t k have a: "build_recommendations ''triangle'' ''olive'' =
      Inr (spec_recommendations oval_guidance (spec_palette ''olive''))"
    by blast
  have p: "spec_palette ''olive'' = neutral_palette"
    by (simp add: spec_palette_def)
  have e: "build_recommendations ''triangle'' ''olive'' =
      Inr (spec_recommendations oval_guidance neutral_palette)"
    unfolding a p by (rule refl)
  show ?thesis
    unfolding e using k u
    by (simp add: spec_recommendations_def oval_guidance_def neutral_palette_def)
qed

section \<open>The symmetry insight stays in range\<close>

lemma np_arctan2_nonneg: "0 \<le> y \<Longrightarrow> 0 < x \<Longrightarrow> 0 \<le> np_arctan2 y x"
  by (simp add: np_arctan2_def zero_le_arctan_iff)

lemma degrees_nonneg: "0 \<le> r \<Longrightarrow> 0 \<le> degrees r"
  by (simp add: degrees_def)

lemma width_pos: "0 < max (a::real) eps"
  using eps_pos by (simp add: max_def)

lemma score_form:
  "\<exists>l r. score (compute_symmetry points box) = max 0 (1 - min 1 (\<bar>l - r\<bar> / max (max l r) eps))"
proof -
  obtain min_x min_y max_x max_y where b: "box = (min_x, min_y, max_x, max_y)"
    by (cases box) auto
  show ?thesis
    unfolding b compute_symmetry_def
    by (simp only: Let_def prod.case Symmetry.select_convs) (rule exI, rule exI, simp)
qed

lemma eye_delta_form:
  "\<exists>d w. eye_delta (compute_symmetry points box) = degrees (np_arctan2 \<bar>d\<bar> (max w eps))"
proof -
  obtain min_x min_y max_x max_y where b: "box = (min_x, min_y, max_x, max_y)"
    by (cases box) auto
  show ?thesis
    unfolding b compute_symmetry_def
    by (simp only: Let_def prod.case Symmetry.select_convs) (rule exI, rule exI, rule refl)
qed

lemma fallback_example:
  "score (compute_symmetry [] (0, 0, 10, 10)) = 1
   \<and> eye_delta (compute_symmetry [] (0, 0, 10, 10)) = 0"
  unfolding compute_symmetry_def
  apply (simp only: Let_def prod.case Symmetry.select_convs)
  apply (simp add: point_def get_point_def py_or_def vsub_def
        linalg_norm_def eps_def np_arctan2_def degrees_def)
  done

text \<open>
  Claim C6. For every landmark list and every bounding box, \<^verbatim>\<open>compute_symmetry\<close>
  returns a symmetry score between 0 and 1 and an eye alignment difference that is not
  negative, also when landmarks 1, 234, 454, 159 and 386 are missing and the points of
  the box stand in for them, as on the empty list, where the score is 1 and the
  difference 0. The function has no raising path: the only exception of the source, the
  \<^verbatim>\<open>IndexError\<close> of a missing landmark, is caught inside \<^verbatim>\<open>point\<close>.
\<close>

theorem compute_symmetry_range:
  "0 \<le> score (compute_symmetry points box) \<and> score (compute_symmetry points box) \<le> 1
   \<and> 0 \<le> eye_delta (compute_symmetry points box)
   \<and> score (compute_symmetry [] (0, 0, 10, 10)) = 1
   \<and> eye_delta (compute_symmetry [] (0, 0, 10, 10)) = 0"
proof -
  obtain l r where s: "score (compute_symmetry points box) =
      max 0 (1 - min 1 (\<bar>l - r\<bar> / max (max l r) eps))"
    using score_form by blast
  obtain d w where e: "eye_delta (compute_symmetry points box) =
      degrees (np_arctan2 \<bar>d\<bar> (max w eps))"
    using eye_delta_form by blast
  have q: "0 \<le> \<bar>l - r\<bar> / max (max l r) eps"
    using width_pos [of "max l r"] by (simp add: divide_nonneg_pos)
  have s1: "0 \<le> score (compute_symmetry points box)"
    unfolding s by simp
  have s2: "score (compute_symmetry points box) \<le> 1"
    unfolding s using q by simp
  have e1: "0 \<le> eye_delta (compute_symmetry points box)"
    unfolding e by (rule degrees_nonneg, rule np_arctan2_nonneg) (simp_all add: width_pos)
  from s1 s2 e1 fallback_example show ?thesis by (intro conjI) simp_all
qed

section \<open>The skin-tone analyzer: errors and thresholds\<close>

lemma cheek_polygon_total:
  assumes "227 < length points"
  shows "cheek_polygon points =
    Inr (map (\<lambda>(x, y). (py_int x, py_int y)) [points ! 93, points ! 227, points ! 137, points ! 177])"
  using assms by (simp add: cheek_polygon_def get_point_in_range bind_err_def)

lemma analyze_skin_tone_cases:
  assumes "cheek_polygon points = Inr polygon"
  shows "analyze_skin_tone fill img points =
    (if mask_positions img (cheek_mask fill img polygon) = []
     then Inl (ValueError ''Insufficient data for skin tone analysis. Try again.'')
     else (let avg_rgb = mean_rgb (map (\<lambda>(row, col). img_at img row col)
                           (mask_positions img (cheek_mask fill img polygon)))
           in Inr (fst (skin_tone_of_rgb avg_rgb), snd (skin_tone_of_rgb avg_rgb),
                   (py_int (fst avg_rgb), py_int (fst (snd avg_rgb)), py_int (snd (snd avg_rgb))))))"
  by (simp add: analyze_skin_tone_def assms bind_err_def Let_def split: prod.splits)

text \<open>
  Claim C3. On a landmark list that has the four cheek landmarks (the largest index is
  227), \<^verbatim>\<open>analyze_skin_tone\<close> raises its \<^verbatim>\<open>ValueError\<close> for an insufficient sample
  exactly when no entry of the mask is set, and returns a result exactly when some
  entry is set, whatever the fill of the polygon and whatever the image.
\<close>

theorem analyze_skin_tone_error_iff:
  assumes "227 < length points"
  shows "\<exists>polygon. cheek_polygon points = Inr polygon
    \<and> ((analyze_skin_tone fill img points =
          Inl (ValueError ''Insufficient data for skin tone analysis. Try again.''))
        = (mask_positions img (cheek_mask fill img polygon) = []))
    \<and> ((\<exists>result. analyze_skin_tone fill img points = Inr result)
        = (mask_positions img (cheek_mask fill img polygon) \<noteq> []))"
proof -
  from cheek_polygon_total [OF assms] obtain polygon where p: "cheek_polygon points = Inr polygon"
    by blast
  show ?thesis
    using p by (simp add: analyze_skin_tone_cases [OF p] Let_def)
qed

lemma origin_polygon: "cheek_polygon origin_landmarks = Inr [(0, 0), (0, 0), (0, 0), (0, 0)]"
  by (simp add: cheek_polygon_def get_point_def bind_err_def origin_landmarks_def py_int_def)

lemma positions_none: "mask_positions black_pixel_image (cheek_mask fill_none black_pixel_image polygon) = []"
  by (simp add: mask_positions_def cheek_mask_def fill_none_def black_pixel_image_def)

lemma positions_all: "mask_positions black_pixel_image (cheek_mask fill_all black_pixel_image polygon) = [(0, 0)]"
  by (simp add: mask_positions_def cheek_mask_def fill_all_def black_pixel_image_def)

theorem analyze_skin_tone_error_iff_witness:
  "227 < length origin_landmarks
   \<and> analyze_skin_tone fill_none black_pixel_image origin_landmarks =
       Inl (ValueError ''Insufficient data for skin tone analysis. Try again.'')
   \<and> (\<exists>result. analyze_skin_tone fill_all black_pixel_image origin_landmarks = Inr result)"
proof -
  have h: "227 < length origin_landmarks" by (simp add: origin_landmarks_def)
  from analyze_skin_tone_error_iff [OF h, of fill_none black_pixel_image]
  have a: "analyze_skin_tone fill_none black_pixel_image origin_landmarks =
       Inl (ValueError ''Insufficient data for skin tone analysis. Try again.'')"
    by (simp add: origin_polygon positions_none)
  from analyze_skin_tone_error_iff [OF h, of fill_all black_pixel_image]
  have b: "\<exists>result. analyze_skin_tone fill_all black_pixel_image origin_landmarks = Inr result"
    by (simp add: origin_polygon positions_all)
  from h a b show ?thesis by (intro conjI)
qed

lemma spec_srgb_decode_eq: "spec_srgb_decode c = gamma_correct c"
  by (simp add: spec_srgb_decode_def gamma_correct_def)

lemma spec_lab_nonlinearity_eq: "spec_lab_nonlinearity t = lab_f t"
  by (simp add: spec_lab_nonlinearity_def lab_f_def root_powr_inverse)

lemma rgb_to_lab_spec: "rgb_to_lab rgb = spec_rgb_to_lab rgb"
  by (cases rgb)
    (simp add: rgb_to_lab_def spec_rgb_to_lab_def Let_def mat_vec_def srgb_d65_matrix_def
      d65_white_def spec_srgb_decode_eq spec_lab_nonlinearity_eq add.assoc)

lemma powr_24_pow5: "0 < (x::real) \<Longrightarrow> (x powr 2.4) ^ 5 = x ^ 12"
proof -
  assume x: "0 < x"
  have "(x powr 2.4) ^ 5 = x powr (of_nat 5 * 2.4)"
    using x by (simp only: powr_power [of x "2.4" 5] less_imp_neq [symmetric, OF x] not_False_eq_True)
  also have "\<dots> = x powr 12" by simp
  also have "\<dots> = x ^ 12" using x by (simp add: powr_numeral)
  finally show ?thesis .
qed

lemma powr_24_lower:
  assumes "0 < (x::real)" and "0 \<le> lo" and "lo ^ 5 \<le> x ^ 12"
  shows "lo \<le> x powr 2.4"
proof (rule ccontr)
  assume "\<not> lo \<le> x powr 2.4"
  then have "x powr 2.4 < lo" by simp
  then have "(x powr 2.4) ^ 5 < lo ^ 5" by (rule power_strict_mono) simp_all
  with assms show False by (simp only: powr_24_pow5)
qed

lemma powr_24_upper:
  assumes "0 < (x::real)" and "0 \<le> hi" and "x ^ 12 \<le> hi ^ 5"
  shows "x powr 2.4 \<le> hi"
proof (rule ccontr)
  assume "\<not> x powr 2.4 \<le> hi"
  then have "hi < x powr 2.4" by simp
  then have "hi ^ 5 < (x powr 2.4) ^ 5" using assms(2) by (rule power_strict_mono) simp
  with assms show False by (simp only: powr_24_pow5)
qed

lemma root3_lower: "0 \<le> (lo::real) \<Longrightarrow> lo ^ 3 \<le> t \<Longrightarrow> lo \<le> root 3 t"
  using real_root_le_mono [of 3 "lo ^ 3" t] by (simp add: real_root_pos2)

lemma root3_upper: "0 \<le> (hi::real) \<Longrightarrow> t \<le> hi ^ 3 \<Longrightarrow> root 3 t \<le> hi"
  using real_root_le_mono [of 3 t "hi ^ 3"] by (simp add: real_root_pos2)

lemma tone_of_ita_cases:
  "(tone_of_ita i = ''very_light'') = (i \<ge> 55)"
  "(tone_of_ita i = ''light'') = (41 \<le> i \<and> i < 55)"
  "(tone_of_ita i = ''medium'') = (28 \<le> i \<and> i < 41)"
  "(tone_of_ita i = ''tan'') = (10 \<le> i \<and> i < 28)"
  "(tone_of_ita i = ''deep'') = (i < 10)"
  by (auto simp: tone_of_ita_def)

lemma skin_tone_parts:
  assumes "rgb_to_lab (r / 255, g / 255, b / 255) = (l, a, bv)"
    and "skin_tone_of_rgb (r, g, b) = (tone, undertone)"
  shows "tone = (case map_option degrees (np_arctan_quot (l - 50) (bv + eps)) of
                   None \<Rightarrow> ''deep'' | Some i \<Rightarrow> tone_of_ita i)"
    and "undertone = (if a < - 2 \<and> bv < 10 then ''cool''
                      else if bv > 15 then ''warm'' else ''neutral'')"
  using assms by (simp_all add: skin_tone_of_rgb_def Let_def)

text \<open>
  Where the denominator of the quotient is zero, numpy's infinite or undefined quotient
  gives "very_light" for a lightness above 50 and "deep" otherwise.
\<close>

lemma skin_tone_zero_denominator:
  assumes "rgb_to_lab (r / 255, g / 255, b / 255) = (l, a, bv)"
    and "skin_tone_of_rgb (r, g, b) = (tone, undertone)"
    and "bv + eps = 0"
  shows "tone = (if l > 50 then ''very_light'' else ''deep'')"
  unfolding skin_tone_parts(1) [OF assms(1,2)] using assms(3)
  by (simp add: np_arctan_quot_def tone_of_ita_def degrees_def)

lemma spec_rgb_to_lab_parts:
  assumes "spec_srgb_decode r = lr" and "spec_srgb_decode g = lg" and "spec_srgb_decode b = lb"
    and "y = 0.2126 * lr + 0.7152 * lg + 0.0722 * lb"
    and "z = (0.0193 * lr + 0.1192 * lg + 0.9505 * lb) / 1.08883"
    and "0.008856 < y" and "0.008856 < z"
  shows "fst (spec_rgb_to_lab (r, g, b)) = 116 * root 3 y - 16"
    and "snd (snd (spec_rgb_to_lab (r, g, b))) = 200 * (root 3 y - root 3 z)"
  using assms
  by (simp_all add: spec_rgb_to_lab_def Let_def mat_vec_def srgb_d65_matrix_def d65_white_def
      spec_lab_nonlinearity_def add.assoc)

lemma arctan_sqrt3: "arctan (sqrt 3) = pi / 3"
  using arctan_tan [of "pi / 3"] by (simp add: tan_60)

lemma degrees_arctan_ge_60:
  assumes "2 \<le> q"
  shows "60 \<le> degrees (arctan q)"
proof -
  have "sqrt 3 \<le> 2" by (rule real_le_lsqrt) simp_all
  with assms have "sqrt 3 \<le> q" by simp
  then have "pi / 3 \<le> arctan q" by (simp add: arctan_le_iff flip: arctan_sqrt3)
  then have "(pi / 3) * (180 / pi) \<le> arctan q * (180 / pi)"
    by (rule mult_right_mono) simp
  then show ?thesis by (simp add: degrees_def)
qed

lemma decode_white: "spec_srgb_decode (255 / 255) = 1"
  by (simp add: spec_srgb_decode_def)

lemma decode_235: "0.83 \<le> spec_srgb_decode (235 / 255) \<and> spec_srgb_decode (235 / 255) \<le> 0.832"
proof -
  have e: "spec_srgb_decode (235 / 255) = ((235 / 255 + 0.055) / 1.055) powr 2.4"
    by (simp add: spec_srgb_decode_def)
  have lo: "0.83 \<le> ((235 / 255 + 0.055) / 1.055 :: real) powr 2.4"
    by (rule powr_24_lower) (simp_all add: power_divide)
  have hi: "((235 / 255 + 0.055) / 1.055 :: real) powr 2.4 \<le> 0.832"
    by (rule powr_24_upper) (simp_all add: power_divide)
  from lo hi show ?thesis unfolding e by (rule conjI)
qed

lemma decode_200: "0.577 \<le> spec_srgb_decode (200 / 255) \<and> spec_srgb_decode (200 / 255) \<le> 0.578"
proof -
  have e: "spec_srgb_decode (200 / 255) = ((200 / 255 + 0.055) / 1.055) powr 2.4"
    by (simp add: spec_srgb_decode_def)
  have lo: "0.577 \<le> ((200 / 255 + 0.055) / 1.055 :: real) powr 2.4"
    by (rule powr_24_lower) (simp_all add: power_divide)
  have hi: "((200 / 255 + 0.055) / 1.055 :: real) powr 2.4 \<le> 0.578"
    by (rule powr_24_upper) (simp_all add: power_divide)
  from lo hi show ?thesis unfolding e by (rule conjI)
qed

lemma light_warm_lab:
  "93 \<le> fst (spec_rgb_to_lab (255 / 255, 235 / 255, 200 / 255))
   \<and> 19 \<le> snd (snd (spec_rgb_to_lab (255 / 255, 235 / 255, 200 / 255)))
   \<and> snd (snd (spec_rgb_to_lab (255 / 255, 235 / 255, 200 / 255))) \<le> 20"
proof -
  define G where "G = spec_srgb_decode (235 / 255)"
  define B where "B = spec_srgb_decode (200 / 255)"
  define Y where "Y = 0.2126 * 1 + 0.7152 * G + 0.0722 * B"
  define Z where "Z = (0.0193 * 1 + 0.1192 * G + 0.9505 * B) / 1.08883"
  have g: "0.83 \<le> G" "G \<le> 0.832" using decode_235 by (simp_all add: G_def)
  have b: "0.577 \<le> B" "B \<le> 0.578" using decode_200 by (simp_all add: B_def)
  have y: "0.8478 \<le> Y" "Y \<le> 0.8494" using g b unfolding Y_def by simp_all
  have z: "0.6122 \<le> Z" "Z \<le> 0.6134" using g b unfolding Z_def by (simp_all add: field_simps)
  have yc: "0.946 ^ 3 \<le> Y" "Y \<le> 0.948 ^ 3" using y by (simp_all add: power_divide)
  have fy: "0.946 \<le> root 3 Y" "root 3 Y \<le> 0.948"
    by (rule root3_lower, simp, rule yc(1)) (rule root3_upper, simp, rule yc(2))
  have zc: "0.849 ^ 3 \<le> Z" "Z \<le> 0.850 ^ 3" using z by (simp_all add: power_divide)
  have fz: "0.849 \<le> root 3 Z" "root 3 Z \<le> 0.850"
    by (rule root3_lower, simp, rule zc(1)) (rule root3_upper, simp, rule zc(2))
  have y0: "0.008856 < Y" and z0: "0.008856 < Z" using y z by simp_all
  note p = spec_rgb_to_lab_parts [OF decode_white G_def [symmetric] B_def [symmetric] Y_def Z_def y0 z0]
  show ?thesis unfolding p using fy fz by simp
qed

text \<open>
  Claim C2. For every average colour, with (l, a, bv) the result of the conversion of
  the specification (sRGB decoding, the sRGB/D65 matrix, the Lab nonlinearity) on the
  colour divided by 255: \<^verbatim>\<open>rgb_to_lab\<close> computes exactly (l, a, bv); where bv + 1e-6
  is not zero, the tone is "very_light" for an angle of at least 55 degrees, "light"
  from 41, "medium" from 28, "tan" from 10 and "deep" below, the angle being the arc
  tangent of (l - 50) / (bv + 1e-6) in degrees; the undertone is "cool" when a is below
  -2 and bv below 10, "warm" when bv is above 15, and "neutral" otherwise. By
  \<open>analyze_skin_tone_cases\<close> the analyzer returns this tone and undertone for the mean of
  the sampled pixels. The colour (255, 235, 200) is very light and warm.
\<close>

theorem skin_tone_of_rgb_thresholds:
  assumes "spec_rgb_to_lab (r / 255, g / 255, b / 255) = (l, a, bv)"
    and "skin_tone_of_rgb (r, g, b) = (tone, undertone)"
  shows "rgb_to_lab (r / 255, g / 255, b / 255) = (l, a, bv)
       \<and> (bv + eps \<noteq> 0 \<longrightarrow>
            (tone = ''very_light'') = (spec_ita l bv \<ge> 55)
          \<and> (tone = ''light'') = (41 \<le> spec_ita l bv \<and> spec_ita l bv < 55)
          \<and> (tone = ''medium'') = (28 \<le> spec_ita l bv \<and> spec_ita l bv < 41)
          \<and> (tone = ''tan'') = (10 \<le> spec_ita l bv \<and> spec_ita l bv < 28)
          \<and> (tone = ''deep'') = (spec_ita l bv < 10))
       \<and> (undertone = ''cool'') = (a < - 2 \<and> bv < 10)
       \<and> (undertone = ''warm'') = (bv > 15)
       \<and> (undertone = ''neutral'') = (\<not> (a < - 2 \<and> bv < 10) \<and> \<not> bv > 15)"
proof -
  have r: "rgb_to_lab (r / 255, g / 255, b / 255) = (l, a, bv)"
    using assms(1) by (simp only: rgb_to_lab_spec)
  note t = skin_tone_parts(1) [OF r assms(2)] and u = skin_tone_parts(2) [OF r assms(2)]
  have n: "bv + eps \<noteq> 0 \<Longrightarrow> tone = tone_of_ita (spec_ita l bv)"
    unfolding t by (simp add: np_arctan_quot_def spec_ita_def)
  have c: "(undertone = ''cool'') = (a < - 2 \<and> bv < 10)"
    "(undertone = ''warm'') = (bv > 15)"
    "(undertone = ''neutral'') = (\<not> (a < - 2 \<and> bv < 10) \<and> \<not> bv > 15)"
    unfolding u by auto
  from r n c show ?thesis by (simp add: tone_of_ita_cases)
qed

theorem skin_tone_of_rgb_thresholds_witness:
  "skin_tone_of_rgb (255, 235, 200) = (''very_light'', ''warm'')
   \<and> rgb_to_lab (255 / 255, 235 / 255, 200 / 255) = spec_rgb_to_lab (255 / 255, 235 / 255, 200 / 255)
   \<and> snd (snd (spec_rgb_to_lab (255 / 255, 235 / 255, 200 / 255))) + eps \<noteq> 0
   \<and> 15 < snd (snd (spec_rgb_to_lab (255 / 255, 235 / 255, 200 / 255)))
   \<and> 55 \<le> spec_ita (fst (spec_rgb_to_lab (255 / 255, 235 / 255, 200 / 255)))
               (snd (snd (spec_rgb_to_lab (255 / 255, 235 / 255, 200 / 255))))"
proof -
  obtain l a bv where sp: "spec_rgb_to_lab (255 / 255, 235 / 255, 200 / 255) = (l, a, bv)"
    by (cases "spec_rgb_to_lab (255 / 255, 235 / 255, 200 / 255)")
  obtain tone undertone where st: "skin_tone_of_rgb (255, 235, 200) = (tone, undertone)"
    by (cases "skin_tone_of_rgb (255, 235, 200)")
  from light_warm_lab [unfolded sp] have bl: "93 \<le> l" "19 \<le> bv" "bv \<le> 20" by simp_all
  have nz: "bv + eps \<noteq> 0" using bl eps_pos by simp
  have w: "15 < bv" using bl by simp
  have "2 * (bv + eps) \<le> l - 50" using bl by (simp add: eps_def)
  then have "2 \<le> (l - 50) / (bv + eps)" using bl eps_pos by (simp add: pos_le_divide_eq)
  then have "60 \<le> spec_ita l bv" unfolding spec_ita_def by (rule degrees_arctan_ge_60)
  then have i: "55 \<le> spec_ita l bv" by simp
  note t = skin_tone_of_rgb_thresholds [OF sp st]
  from t nz i have tone: "tone = ''very_light''" by simp
  from t w have undertone: "undertone = ''warm''" by simp
  from t have r: "rgb_to_lab (255 / 255, 235 / 255, 200 / 255) = (l, a, bv)" by simp
  show ?thesis unfolding st r sp using tone undertone nz w i by simp
qed

end
